theory Spec2Isabelle
  imports Main "HOL-Library.Sublist"
begin

section \<open>StyleVerse front end: the API client and the auth page\<close>

text \<open>
  The development embeds \<^verbatim>\<open>frontend/src/services/api.ts\<close> (the shared axios client, its two
  interceptors and the service objects built on it) and the two submit handlers of
  \<^verbatim>\<open>frontend/src/pages/Auth.tsx\<close>.

  Every asynchronous function of the source becomes a function from the state of the page to a
  result and the new state. A rejected promise or a thrown exception is \<open>Inl\<close> of the thrown
  value, a resolved promise is \<open>Inr\<close> of its value. The network is a parameter: a function from
  the request handed to the transport to what the transport answers. Each function of the
  source runs without interleaving with other tasks. Console output is not part of the state.
  JavaScript numbers are integers here; strings are byte lists (UTF-8).
\<close>

subsection \<open>JavaScript values\<close>

datatype json =
    JUndefined
  | JNull
  | JBool bool
  | JNum int
  | JStr string
  | JArr "json list"
  | JObj "(string \<times> json) list"

text \<open>Truthiness, as tested by \<^verbatim>\<open>if (value)\<close> and by \<^verbatim>\<open>a || b\<close>.\<close>

fun js_truthy :: "json \<Rightarrow> bool" where
  "js_truthy JUndefined = False"
| "js_truthy JNull = False"
| "js_truthy (JBool b) = b"
| "js_truthy (JNum n) = (n \<noteq> 0)"
| "js_truthy (JStr s) = (s \<noteq> [])"
| "js_truthy (JArr xs) = True"
| "js_truthy (JObj kvs) = True"

text \<open>Decimal digits of a number, as template literals and string conversion print it.\<close>

fun dec_nat :: "nat \<Rightarrow> string" where
  "dec_nat n =
     (if n < 10 then [''0123456789'' ! n]
      else dec_nat (n div 10) @ [''0123456789'' ! (n mod 10)])"

declare dec_nat.simps [simp del]

definition dec_int :: "int \<Rightarrow> string" where
  "dec_int i = (if i < 0 then CHR ''-'' # dec_nat (nat (- i)) else dec_nat (nat i))"

fun join :: "string \<Rightarrow> string list \<Rightarrow> string" where
  "join sep [] = []"
| "join sep [x] = x"
| "join sep (x # y # ys) = x @ sep @ join sep (y # ys)"

text \<open>
  String conversion (\<^verbatim>\<open>String(v)\<close>), which \<^verbatim>\<open>localStorage.setItem\<close>,
  \<^verbatim>\<open>URLSearchParams.append\<close>, \<^verbatim>\<open>new Error\<close> and template literals apply to their
  argument. An array prints its elements separated by commas, with nothing for
  \<^verbatim>\<open>null\<close> and \<^verbatim>\<open>undefined\<close>.
\<close>

fun js_to_string :: "json \<Rightarrow> string" where
  "js_to_string JUndefined = ''undefined''"
| "js_to_string JNull = ''null''"
| "js_to_string (JBool b) = (if b then ''true'' else ''false'')"
| "js_to_string (JNum n) = dec_int n"
| "js_to_string (JStr s) = s"
| "js_to_string (JArr xs) =
     join '','' (map (\<lambda>x. if x = JUndefined \<or> x = JNull then [] else js_to_string x) xs)"
| "js_to_string (JObj kvs) = ''[object Object]''"

record http_response =
  status :: int
  data :: json

record axios_error =
  err_message :: string
  err_response :: "http_response option"

text \<open>
  What a \<^verbatim>\<open>catch\<close> can receive: the error axios rejects with, an \<^verbatim>\<open>Error\<close> made by
  \<^verbatim>\<open>new Error(message)\<close>, a \<^verbatim>\<open>TypeError\<close> or \<^verbatim>\<open>SyntaxError\<close> raised by the
  engine (their message texts are the engine's and are not modelled), or a value that is not
  an \<^verbatim>\<open>Error\<close> at all.
\<close>

datatype thrown =
    AxiosError axios_error
  | JsError string
  | TypeError
  | SyntaxError
  | NonError json

text \<open>
  Reading a property \<^verbatim>\<open>v.key\<close>: a \<^verbatim>\<open>TypeError\<close> on \<^verbatim>\<open>null\<close> and
  \<^verbatim>\<open>undefined\<close>, the own property of an object, \<^verbatim>\<open>undefined\<close> otherwise. (The
  keys the source reads are \<^verbatim>\<open>data\<close>, \<^verbatim>\<open>token\<close>, \<^verbatim>\<open>user\<close>,
  \<^verbatim>\<open>userData\<close> and \<^verbatim>\<open>message\<close>, none of which is inherited from a prototype.)
\<close>

fun get_prop :: "json \<Rightarrow> string \<Rightarrow> thrown + json" where
  "get_prop JUndefined k = Inl TypeError"
| "get_prop JNull k = Inl TypeError"
| "get_prop (JObj kvs) k = Inr (case map_of kvs k of None \<Rightarrow> JUndefined | Some v \<Rightarrow> v)"
| "get_prop v k = Inr JUndefined"

fun instanceof_Error :: "thrown \<Rightarrow> bool" where
  "instanceof_Error (NonError v) = False"
| "instanceof_Error e = True"

subsection \<open>\<^verbatim>\<open>JSON.stringify\<close>\<close>

definition hex_digit :: "nat \<Rightarrow> char" where
  "hex_digit n = ''0123456789abcdef'' ! n"

definition json_escape_char :: "char \<Rightarrow> string" where
  "json_escape_char c =
     (if c = CHR 0x22 then [CHR 0x5C, CHR 0x22]
      else if c = CHR 0x5C then [CHR 0x5C, CHR 0x5C]
      else if c = CHR 0x08 then [CHR 0x5C, CHR ''b'']
      else if c = CHR 0x0C then [CHR 0x5C, CHR ''f'']
      else if c = CHR 0x0A then [CHR 0x5C, CHR ''n'']
      else if c = CHR 0x0D then [CHR 0x5C, CHR ''r'']
      else if c = CHR 0x09 then [CHR 0x5C, CHR ''t'']
      else if (of_char c :: nat) < 32 then
        [CHR 0x5C, CHR ''u'', CHR ''0'', CHR ''0'',
         hex_digit ((of_char c :: nat) div 16), hex_digit ((of_char c :: nat) mod 16)]
      else [c])"

definition json_quote :: "string \<Rightarrow> string" where
  "json_quote s = [CHR 0x22] @ concat (map json_escape_char s) @ [CHR 0x22]"

text \<open>
  \<^verbatim>\<open>JSON.stringify(v)\<close> is \<^verbatim>\<open>undefined\<close> (\<open>None\<close>) for \<^verbatim>\<open>undefined\<close>. Inside an
  array \<^verbatim>\<open>undefined\<close> prints as \<^verbatim>\<open>null\<close>; inside an object the property is left out.
\<close>

fun JSON_stringify :: "json \<Rightarrow> string option" where
  "JSON_stringify JUndefined = None"
| "JSON_stringify JNull = Some ''null''"
| "JSON_stringify (JBool b) = Some (if b then ''true'' else ''false'')"
| "JSON_stringify (JNum n) = Some (dec_int n)"
| "JSON_stringify (JStr s) = Some (json_quote s)"
| "JSON_stringify (JArr xs) =
     Some (''['' @ join '',''
        (map (\<lambda>x. case JSON_stringify x of None \<Rightarrow> ''null'' | Some t \<Rightarrow> t) xs) @ '']'')"
| "JSON_stringify (JObj kvs) =
     Some (''{'' @ join '',''
        (concat (map (\<lambda>kv. case JSON_stringify (snd kv) of
                              None \<Rightarrow> []
                            | Some t \<Rightarrow> [json_quote (fst kv) @ '':'' @ t]) kvs)) @ ''}'')"

text \<open>The string a DOM interface stores for an optional string: \<^verbatim>\<open>"undefined"\<close> for none.\<close>

definition DOMString :: "string option \<Rightarrow> string" where
  "DOMString v = (case v of None \<Rightarrow> ''undefined'' | Some s \<Rightarrow> s)"

subsection \<open>The page: storage, location, network log, component state\<close>

datatype http_method = GET | POST | PUT | DELETE

datatype form_value = FormText string | FormFile string

datatype body =
    NoBody
  | JsonBody json
  | TextBody string
  | FormDataBody "(string \<times> form_value) list"

record request =
  req_method :: http_method
  baseURL :: "string option"
  url :: string
  headers :: "string \<rightharpoonup> string"
  body :: body

datatype toast_text = Text string | MessageOf thrown

record toast =
  title :: string
  description :: toast_text
  variant :: "string option"

text \<open>
  \<open>requests\<close> lists the requests handed to the transport, oldest first. \<open>loading\<close> and
  \<open>user\<close> are the state of the \<^verbatim>\<open>Auth\<close> component, \<open>toasts\<close> the notifications shown
  and \<open>navigations\<close> the routes given to \<^verbatim>\<open>navigate\<close>. \<open>location_href\<close> holds the
  last value assigned to \<^verbatim>\<open>window.location.href\<close>.
\<close>

record world =
  VITE_API_URL :: "string option"
  localStorage :: "string \<rightharpoonup> string"
  location_href :: string
  requests :: "request list"
  loading :: bool
  user :: json
  toasts :: "toast list"
  navigations :: "string list"

type_synonym transport = "request \<Rightarrow> axios_error + http_response"

type_synonym 'a promise = "(thrown + 'a) \<times> world"

definition getItem :: "world \<Rightarrow> string \<Rightarrow> string option" where
  "getItem w k = localStorage w k"

definition setItem :: "string \<Rightarrow> string \<Rightarrow> world \<Rightarrow> world" where
  "setItem k v w = w\<lparr>localStorage := (localStorage w)(k \<mapsto> v)\<rparr>"

definition removeItem :: "string \<Rightarrow> world \<Rightarrow> world" where
  "removeItem k w = w\<lparr>localStorage := (localStorage w)(k := None)\<rparr>"

text \<open>\<^verbatim>\<open>if (token)\<close> on what \<^verbatim>\<open>getItem\<close> returned: false for \<^verbatim>\<open>null\<close> and for \<^verbatim>\<open>""\<close>.\<close>

fun str_truthy :: "string option \<Rightarrow> bool" where
  "str_truthy None = False"
| "str_truthy (Some s) = (s \<noteq> [])"

definition API_URL :: "world \<Rightarrow> string" where
  "API_URL w =
     (if str_truthy (VITE_API_URL w) then the (VITE_API_URL w) else ''http://localhost:8000/api'')"

subsection \<open>The shared client and its interceptors\<close>

definition api_defaults :: "string \<rightharpoonup> string" where
  "api_defaults = [''Content-Type'' \<mapsto> ''application/json'']"

definition request_interceptor :: "request \<Rightarrow> world \<Rightarrow> thrown + request" where
  "request_interceptor config w =
     (let token = getItem w ''token'' in
      if str_truthy token
      then Inr (config\<lparr>headers := (headers config)(''Authorization'' \<mapsto> ''Bearer '' @ the token)\<rparr>)
      else Inr config)"

text \<open>
  The second handler given to \<^verbatim>\<open>interceptors.request.use\<close> passes on the rejection of an
  earlier request interceptor. The client installs no other request interceptor, so no call
  reaches it.
\<close>

definition request_interceptor_rejected :: "thrown \<Rightarrow> thrown + request" where
  "request_interceptor_rejected error = Inl error"

definition response_interceptor :: "http_response \<Rightarrow> world \<Rightarrow> http_response promise" where
  "response_interceptor response w = (Inr response, w)"

definition response_interceptor_rejected :: "axios_error \<Rightarrow> world \<Rightarrow> http_response promise" where
  "response_interceptor_rejected error w =
     (if err_response error \<noteq> None \<and> status (the (err_response error)) = 401
      then (Inl (AxiosError error),
            (removeItem ''user'' (removeItem ''token'' w))\<lparr>location_href := ''/auth''\<rparr>)
      else (Inl (AxiosError error), w))"

text \<open>
  A call through the shared client: the request's own headers go over the client's defaults,
  the request interceptor runs, the transport is asked, and its answer goes through the
  response interceptor.
\<close>

definition api_request ::
  "transport \<Rightarrow> http_method \<Rightarrow> string \<Rightarrow> body \<Rightarrow> (string \<rightharpoonup> string) \<Rightarrow> world \<Rightarrow>
     http_response promise" where
  "api_request net m u b hs w =
     (let config = \<lparr>req_method = m, baseURL = Some (API_URL w), url = u,
                     headers = api_defaults ++ hs, body = b\<rparr> in
      case request_interceptor config w of
        Inl e \<Rightarrow> (Inl e, w)
      | Inr config' \<Rightarrow>
          (let w' = w\<lparr>requests := requests w @ [config']\<rparr> in
           case net config' of
             Inr response \<Rightarrow> response_interceptor response w'
           | Inl error \<Rightarrow> response_interceptor_rejected error w'))"

definition api_get :: "transport \<Rightarrow> string \<Rightarrow> world \<Rightarrow> http_response promise" where
  "api_get net u w = api_request net GET u NoBody Map.empty w"

definition api_post :: "transport \<Rightarrow> string \<Rightarrow> body \<Rightarrow> world \<Rightarrow> http_response promise" where
  "api_post net u b w = api_request net POST u b Map.empty w"

definition api_put :: "transport \<Rightarrow> string \<Rightarrow> body \<Rightarrow> world \<Rightarrow> http_response promise" where
  "api_put net u b w = api_request net PUT u b Map.empty w"

definition api_delete :: "transport \<Rightarrow> string \<Rightarrow> world \<Rightarrow> http_response promise" where
  "api_delete net u w = api_request net DELETE u NoBody Map.empty w"

text \<open>\<^verbatim>\<open>axios.post\<close> on the library's own instance: no base URL, no interceptor.\<close>

definition axios_post ::
  "transport \<Rightarrow> string \<Rightarrow> body \<Rightarrow> (string \<rightharpoonup> string) \<Rightarrow> world \<Rightarrow> http_response promise" where
  "axios_post net u b hs w =
     (let config = \<lparr>req_method = POST, baseURL = None, url = u, headers = hs, body = b\<rparr>;
          w' = w\<lparr>requests := requests w @ [config]\<rparr> in
      case net config of
        Inr response \<Rightarrow> (Inr response, w')
      | Inl error \<Rightarrow> (Inl (AxiosError error), w'))"

subsection \<open>Query strings\<close>

text \<open>
  \<^verbatim>\<open>URLSearchParams\<close> is a list of name-value pairs. Its string form is the
  \<^verbatim>\<open>application/x-www-form-urlencoded\<close> serialisation: a space becomes \<^verbatim>\<open>+\<close>, the
  bytes of letters, digits and \<^verbatim>\<open>* - . _\<close> stay, every other byte becomes \<^verbatim>\<open>%XX\<close>.
\<close>

definition urlencoded_keeps :: "char \<Rightarrow> bool" where
  "urlencoded_keeps c \<longleftrightarrow>
     c \<in> set ''abcdefghijklmnopqrstuvwxyzABCDEFGHIJKLMNOPQRSTUVWXYZ0123456789*-._''"

definition HEX_digit :: "nat \<Rightarrow> char" where
  "HEX_digit n = ''0123456789ABCDEF'' ! n"

definition urlencode_byte :: "char \<Rightarrow> string" where
  "urlencode_byte c =
     (if c = CHR '' '' then ''+''
      else if urlencoded_keeps c then [c]
      else [CHR ''%'', HEX_digit ((of_char c :: nat) div 16), HEX_digit ((of_char c :: nat) mod 16)])"

definition urlencode :: "string \<Rightarrow> string" where
  "urlencode s = concat (map urlencode_byte s)"

definition URLSearchParams_toString :: "(string \<times> string) list \<Rightarrow> string" where
  "URLSearchParams_toString queryParams =
     join ''&'' (map (\<lambda>(k, v). urlencode k @ ''='' @ urlencode v) queryParams)"

text \<open>
  The loop \<^verbatim>\<open>Object.entries(filters).forEach(([key, value]) => { if (value)
  queryParams.append(key, value) })\<close> over the entries of the filter object.
\<close>

fun append_filters :: "(string \<times> json) list \<Rightarrow> (string \<times> string) list \<Rightarrow> (string \<times> string) list" where
  "append_filters [] queryParams = queryParams"
| "append_filters ((key, val) # entries) queryParams =
     append_filters entries
       (if js_truthy val then queryParams @ [(key, js_to_string val)] else queryParams)"

subsection \<open>Auth services\<close>

definition authService_login :: "transport \<Rightarrow> string \<Rightarrow> string \<Rightarrow> world \<Rightarrow> json promise" where
  "authService_login net email password w =
     (case api_post net ''/auth/login''
             (JsonBody (JObj [(''email'', JStr email), (''password'', JStr password)])) w of
        (Inl e, w1) \<Rightarrow> (Inl e, w1)
      | (Inr response, w1) \<Rightarrow>
          (case get_prop (data response) ''data'' of
             Inl e \<Rightarrow> (Inl e, w1)
           | Inr d \<Rightarrow>
               (case get_prop d ''token'' of
                  Inl e \<Rightarrow> (Inl e, w1)
                | Inr token \<Rightarrow>
                    (case get_prop d ''userData'' of
                       Inl e \<Rightarrow> (Inl e, w1)
                     | Inr userData \<Rightarrow>
                         (Inr userData,
                          setItem ''user'' (DOMString (JSON_stringify userData))
                            (setItem ''token'' (js_to_string token) w1))))))"

record registration =
  reg_name :: string
  reg_email :: string
  reg_password :: string
  reg_role :: string

definition registration_json :: "registration \<Rightarrow> json" where
  "registration_json r =
     JObj [(''name'', JStr (reg_name r)), (''email'', JStr (reg_email r)),
           (''password'', JStr (reg_password r)), (''role'', JStr (reg_role r))]"

definition authService_register :: "transport \<Rightarrow> registration \<Rightarrow> world \<Rightarrow> json promise" where
  "authService_register net userData w =
     (case api_post net ''/auth/register'' (JsonBody (registration_json userData)) w of
        (Inl e, w1) \<Rightarrow> (Inl e, w1)
      | (Inr response, w1) \<Rightarrow>
          (case get_prop (data response) ''token'' of
             Inl e \<Rightarrow> (Inl e, w1)
           | Inr token \<Rightarrow>
               (case get_prop (data response) ''user'' of
                  Inl e \<Rightarrow> (Inl e, w1)
                | Inr usr \<Rightarrow>
                    (Inr usr,
                     setItem ''user'' (DOMString (JSON_stringify usr))
                       (setItem ''token'' (js_to_string token) w1)))))"

definition authService_logout :: "world \<Rightarrow> json promise" where
  "authService_logout w = (Inr (JBool True), removeItem ''user'' (removeItem ''token'' w))"

definition authService_getCurrentUser :: "transport \<Rightarrow> world \<Rightarrow> json promise" where
  "authService_getCurrentUser net w =
     (let token = getItem w ''token'' in
      if \<not> str_truthy token then (Inr JNull, w)
      else
        (case api_get net ''/auth/me'' w of
           (Inr response, w1) \<Rightarrow> (Inr (data response), w1)
         | (Inl error, w1) \<Rightarrow> (Inr JNull, removeItem ''user'' (removeItem ''token'' w1))))"

subsection \<open>The services that return \<^verbatim>\<open>response.data\<close>\<close>

text \<open>\<^verbatim>\<open>const response = await call; return response.data\<close>.\<close>

definition return_data :: "http_response promise \<Rightarrow> json promise" where
  "return_data p =
     (case p of
        (Inl e, w1) \<Rightarrow> (Inl e, w1)
      | (Inr response, w1) \<Rightarrow> (Inr (data response), w1))"

definition userService_getUsers :: "transport \<Rightarrow> world \<Rightarrow> json promise" where
  "userService_getUsers net w = return_data (api_get net ''/users'' w)"

definition userService_getUserById :: "transport \<Rightarrow> int \<Rightarrow> world \<Rightarrow> json promise" where
  "userService_getUserById net userId w =
     return_data (api_get net (''/users?userId='' @ dec_int userId) w)"

definition userService_updateUser :: "transport \<Rightarrow> int \<Rightarrow> json \<Rightarrow> world \<Rightarrow> json promise" where
  "userService_updateUser net userId userData w =
     return_data (api_put net (''/users/'' @ dec_int userId) (JsonBody userData) w)"

definition userService_deleteUser :: "transport \<Rightarrow> int \<Rightarrow> world \<Rightarrow> json promise" where
  "userService_deleteUser net userId w =
     return_data (api_delete net (''/users/'' @ dec_int userId) w)"

definition requestService_getRequests :: "transport \<Rightarrow> (string \<times> json) list \<Rightarrow> world \<Rightarrow> json promise" where
  "requestService_getRequests net filters w =
     (let queryParams = append_filters filters [] in
      return_data
        (api_get net (''/customization-requests?'' @ URLSearchParams_toString queryParams) w))"

definition requestService_getRequestById :: "transport \<Rightarrow> string \<Rightarrow> world \<Rightarrow> json promise" where
  "requestService_getRequestById net requestId w =
     return_data (api_get net (''/customization-requests/'' @ requestId) w)"

text \<open>The argument of \<^verbatim>\<open>createRequest\<close>: a \<^verbatim>\<open>FormData\<close> or anything else.\<close>

datatype payload = FormData "(string \<times> form_value) list" | Plain json

fun requestService_createRequest :: "transport \<Rightarrow> payload \<Rightarrow> world \<Rightarrow> json promise" where
  "requestService_createRequest net (FormData requestData) w =
     (let token = getItem w ''token'';
          config_headers =
            (if str_truthy token then [''Authorization'' \<mapsto> ''Bearer '' @ the token]
             else Map.empty) in
      case axios_post net (API_URL w @ ''/customization-requests'') (FormDataBody requestData)
             config_headers w of
        (Inr response, w1) \<Rightarrow> (Inr (data response), w1)
      | (Inl error, w1) \<Rightarrow> (Inl error, w1))"
| "requestService_createRequest net (Plain requestData) w =
     return_data (api_post net ''/customization-requests'' (JsonBody requestData) w)"

definition requestService_updateRequest :: "transport \<Rightarrow> string \<Rightarrow> json \<Rightarrow> world \<Rightarrow> json promise" where
  "requestService_updateRequest net requestId requestData w =
     return_data (api_put net (''/customization-requests/'' @ requestId) (JsonBody requestData) w)"

definition requestService_deleteRequest :: "transport \<Rightarrow> int \<Rightarrow> world \<Rightarrow> json promise" where
  "requestService_deleteRequest net requestId w =
     return_data (api_delete net (''/customization-requests/'' @ dec_int requestId) w)"

definition requestImageService_getImagesByRequestId ::
  "transport \<Rightarrow> string \<Rightarrow> world \<Rightarrow> json promise" where
  "requestImageService_getImagesByRequestId net requestId w =
     return_data (api_get net (''/customization-request-images/'' @ requestId) w)"

definition requestImageService_addImage :: "transport \<Rightarrow> string \<Rightarrow> string \<Rightarrow> world \<Rightarrow> json promise" where
  "requestImageService_addImage net request_id image_url w =
     return_data
       (api_post net ''/customization-request-images''
          (JsonBody (JObj [(''request_id'', JStr request_id), (''image_url'', JStr image_url)])) w)"

definition requestImageService_uploadImage ::
  "transport \<Rightarrow> string \<Rightarrow> string \<Rightarrow> world \<Rightarrow> json promise" where
  "requestImageService_uploadImage net requestId imageFile w =
     (let formData = [] @ [(''request_id'', FormText requestId)] @ [(''image'', FormFile imageFile)] in
      return_data
        (api_request net POST ''/customization-request-images/upload'' (FormDataBody formData)
           [''Content-Type'' \<mapsto> ''multipart/form-data''] w))"

definition requestImageService_deleteImage :: "transport \<Rightarrow> string \<Rightarrow> world \<Rightarrow> json promise" where
  "requestImageService_deleteImage net imageId w =
     return_data (api_delete net (''/customization-request-images/'' @ imageId) w)"

definition proposalService_getProposals :: "transport \<Rightarrow> (string \<times> json) list \<Rightarrow> world \<Rightarrow> json promise" where
  "proposalService_getProposals net filters w =
     (let queryParams = append_filters filters [] in
      return_data
        (api_get net (''/designer-proposals?'' @ URLSearchParams_toString queryParams) w))"

definition proposalService_createProposal :: "transport \<Rightarrow> json \<Rightarrow> world \<Rightarrow> json promise" where
  "proposalService_createProposal net proposalData w =
     return_data (api_post net ''/designer-proposals'' (JsonBody proposalData) w)"

definition proposalService_updateProposal :: "transport \<Rightarrow> string \<Rightarrow> json \<Rightarrow> world \<Rightarrow> json promise" where
  "proposalService_updateProposal net proposalId proposalData w =
     return_data (api_put net (''/designer-proposals/'' @ proposalId) (JsonBody proposalData) w)"

definition chatService_getMessages :: "transport \<Rightarrow> int \<Rightarrow> int \<Rightarrow> world \<Rightarrow> json promise" where
  "chatService_getMessages net senderId receiverId w =
     return_data
       (api_get net (''/chat?senderId='' @ dec_int senderId @ ''&receiverId='' @ dec_int receiverId) w)"

definition chatService_sendMessage :: "transport \<Rightarrow> json \<Rightarrow> world \<Rightarrow> json promise" where
  "chatService_sendMessage net messageData w =
     return_data (api_post net ''/chat'' (JsonBody messageData) w)"

subsection \<open>Every operation of the service objects\<close>

datatype facade_call =
    Login string string
  | Register registration
  | Logout
  | GetCurrentUser
  | GetUsers
  | GetUserById int
  | UpdateUser int json
  | DeleteUser int
  | GetRequests "(string \<times> json) list"
  | GetRequestById string
  | CreateRequest payload
  | UpdateRequest string json
  | DeleteRequest int
  | GetImagesByRequestId string
  | AddImage string string
  | UploadImage string string
  | DeleteImage string
  | GetProposals "(string \<times> json) list"
  | CreateProposal json
  | UpdateProposal string json
  | GetMessages int int
  | SendMessage json

fun call_facade :: "transport \<Rightarrow> facade_call \<Rightarrow> world \<Rightarrow> json promise" where
  "call_facade net (Login email password) = authService_login net email password"
| "call_facade net (Register userData) = authService_register net userData"
| "call_facade net Logout = authService_logout"
| "call_facade net GetCurrentUser = authService_getCurrentUser net"
| "call_facade net GetUsers = userService_getUsers net"
| "call_facade net (GetUserById userId) = userService_getUserById net userId"
| "call_facade net (UpdateUser userId userData) = userService_updateUser net userId userData"
| "call_facade net (DeleteUser userId) = userService_deleteUser net userId"
| "call_facade net (GetRequests filters) = requestService_getRequests net filters"
| "call_facade net (GetRequestById requestId) = requestService_getRequestById net requestId"
| "call_facade net (CreateRequest requestData) = requestService_createRequest net requestData"
| "call_facade net (UpdateRequest requestId requestData) =
     requestService_updateRequest net requestId requestData"
| "call_facade net (DeleteRequest requestId) = requestService_deleteRequest net requestId"
| "call_facade net (GetImagesByRequestId requestId) =
     requestImageService_getImagesByRequestId net requestId"
| "call_facade net (AddImage request_id image_url) =
     requestImageService_addImage net request_id image_url"
| "call_facade net (UploadImage requestId imageFile) =
     requestImageService_uploadImage net requestId imageFile"
| "call_facade net (DeleteImage imageId) = requestImageService_deleteImage net imageId"
| "call_facade net (GetProposals filters) = proposalService_getProposals net filters"
| "call_facade net (CreateProposal proposalData) = proposalService_createProposal net proposalData"
| "call_facade net (UpdateProposal proposalId proposalData) =
     proposalService_updateProposal net proposalId proposalData"
| "call_facade net (GetMessages senderId receiverId) =
     chatService_getMessages net senderId receiverId"
| "call_facade net (SendMessage messageData) = chatService_sendMessage net messageData"

subsection \<open>The auth page\<close>

definition show_toast :: "toast \<Rightarrow> world \<Rightarrow> world" where
  "show_toast t w = w\<lparr>toasts := toasts w @ [t]\<rparr>"

definition navigate :: "string \<Rightarrow> world \<Rightarrow> world" where
  "navigate route w = w\<lparr>navigations := navigations w @ [route]\<rparr>"

definition handleLogin :: "transport \<Rightarrow> string \<Rightarrow> string \<Rightarrow> world \<Rightarrow> world" where
  "handleLogin net email password w =
     (let w1 = w\<lparr>loading := True\<rparr> in
      case authService_login net email password w1 of
        (Inr userData, w2) \<Rightarrow>
          navigate ''/''
            (show_toast \<lparr>title = ''Login successful'',
                         description = Text ''Welcome back to StyleVerse.'',
                         variant = None\<rparr>
               (w2\<lparr>user := userData\<rparr>))
      | (Inl error, w2) \<Rightarrow>
          show_toast \<lparr>title = ''Login failed'',
                      description = (if instanceof_Error error then MessageOf error
                                     else Text ''Invalid credentials''),
                      variant = Some ''destructive''\<rparr> w2)"

text \<open>
  What \<^verbatim>\<open>fetch\<close> resolves with, as far as \<^verbatim>\<open>handleRegister\<close> reads it: the
  \<^verbatim>\<open>ok\<close> flag and what \<^verbatim>\<open>await response.json()\<close> gives.
\<close>

record fetch_response =
  ok :: bool
  json_result :: "thrown + json"

type_synonym fetcher = "request \<Rightarrow> thrown + fetch_response"

datatype role = Customer | Designer

fun role_string :: "role \<Rightarrow> string" where
  "role_string Customer = ''customer''"
| "role_string Designer = ''designer''"

definition handleRegister ::
  "fetcher \<Rightarrow> string \<Rightarrow> string \<Rightarrow> string \<Rightarrow> role \<Rightarrow> world \<Rightarrow> world" where
  "handleRegister fetch name email password role w =
     (let w1 = w\<lparr>loading := True\<rparr>;
          req = \<lparr>req_method = POST, baseURL = None, url = API_URL w1 @ ''/auth/register'',
                  headers = [''Content-Type'' \<mapsto> ''application/json''],
                  body = (case JSON_stringify
                                 (JObj [(''name'', JStr name), (''email'', JStr email),
                                        (''password'', JStr password),
                                        (''role'', JStr (role_string role))]) of
                            None \<Rightarrow> NoBody
                          | Some s \<Rightarrow> TextBody s)\<rparr>;
          w2 = w1\<lparr>requests := requests w1 @ [req]\<rparr>;
          tried =
            (case fetch req of
               Inl e \<Rightarrow> Inl e
             | Inr response \<Rightarrow>
                 if \<not> ok response then
                   (case json_result response of
                      Inl e \<Rightarrow> Inl e
                    | Inr errorData \<Rightarrow>
                        (case get_prop errorData ''message'' of
                           Inl e \<Rightarrow> Inl e
                         | Inr m \<Rightarrow>
                             Inl (JsError (js_to_string
                                    (if js_truthy m then m else JStr ''Registration failed'')))))
                 else Inr ());
          w3 =
            (case tried of
               Inr _ \<Rightarrow>
                 show_toast \<lparr>title = ''Registration successful'',
                             description = Text ''Welcome to StyleVerse.'',
                             variant = None\<rparr> w2
             | Inl error \<Rightarrow>
                 show_toast \<lparr>title = ''Registration failed'',
                             description = (if instanceof_Error error then MessageOf error
                                            else Text ''Could not create account''),
                             variant = Some ''destructive''\<rparr> w2)
      in w3\<lparr>loading := False\<rparr>)"

subsection \<open>Example states and transports\<close>

definition demo_world :: world where
  "demo_world =
     \<lparr>VITE_API_URL = None, localStorage = [''token'' \<mapsto> ''t0'', ''user'' \<mapsto> ''u0''],
      location_href = ''/'', requests = [], loading = False, user = JUndefined,
      toasts = [], navigations = []\<rparr>"

definition fresh_world :: world where
  "fresh_world =
     \<lparr>VITE_API_URL = None, localStorage = Map.empty,
      location_href = ''/auth'', requests = [], loading = False, user = JUndefined,
      toasts = [], navigations = []\<rparr>"

definition unauthorized :: axios_error where
  "unauthorized =
     \<lparr>err_message = ''Request failed with status code 401'',
      err_response = Some \<lparr>status = 401, data = JNull\<rparr>\<rparr>"

definition server_error :: axios_error where
  "server_error =
     \<lparr>err_message = ''Request failed with status code 500'',
      err_response = Some \<lparr>status = 500, data = JNull\<rparr>\<rparr>"

definition users_config :: request where
  "users_config =
     \<lparr>req_method = GET, baseURL = Some ''http://localhost:8000/api'', url = ''/users'',
      headers = api_defaults, body = NoBody\<rparr>"

definition login_response :: http_response where
  "login_response =
     \<lparr>status = 200,
      data = JObj [(''data'', JObj [(''token'', JStr ''t1''),
                                    (''userData'', JObj [(''id'', JNum 1)])])]\<rparr>"

definition register_response :: http_response where
  "register_response =
     \<lparr>status = 201,
      data = JObj [(''token'', JStr ''t2''), (''user'', JObj [(''id'', JNum 2)])]\<rparr>"

definition ann :: registration where
  "ann = \<lparr>reg_name = ''Ann'', reg_email = ''a@b.com'', reg_password = ''pw'',
           reg_role = ''customer''\<rparr>"

definition accepting_fetch :: fetcher where
  "accepting_fetch req =
     Inr \<lparr>ok = True,
          json_result = Inr (JObj [(''token'', JStr ''t2''), (''user'', JObj [(''id'', JNum 2)])])\<rparr>"

definition ok_response :: http_response where
  "ok_response = \<lparr>status = 200, data = JArr []\<rparr>"

definition demo_filters :: "(string \<times> json) list" where
  "demo_filters =
     [(''status'', JStr ''open''), (''q'', JStr ''''), (''page'', JNum 2), (''n'', JNum 0),
      (''mine'', JBool False), (''tag'', JUndefined)]"

section \<open>Properties\<close>

subsection \<open>The shared client\<close>

lemma request_interceptor_Inr:
  "request_interceptor config w =
     Inr (if str_truthy (localStorage w ''token'')
          then config\<lparr>headers :=
                 (headers config)(''Authorization'' \<mapsto> ''Bearer '' @ the (localStorage w ''token''))\<rparr>
          else config)"
  by (simp add: request_interceptor_def getItem_def Let_def)

lemma api_request_sent:
  "\<exists>req. request_interceptor
            \<lparr>req_method = m, baseURL = Some (API_URL w), url = u,
             headers = api_defaults ++ hs, body = b\<rparr> w = Inr req
       \<and> api_request net m u b hs w =
           (case net req of
              Inr response \<Rightarrow> (Inr response, w\<lparr>requests := requests w @ [req]\<rparr>)
            | Inl error \<Rightarrow>
                response_interceptor_rejected error (w\<lparr>requests := requests w @ [req]\<rparr>))"
  by (simp add: api_request_def request_interceptor_Inr Let_def response_interceptor_def
      split: sum.splits)

text \<open>
  C1. Whatever call goes through the shared client (any method, URL, body and headers): when
  the transport rejects the request it was handed with an error whose response has status
  401, the call ends with the \<^verbatim>\<open>token\<close> and \<^verbatim>\<open>user\<close> entries of local storage
  removed and \<^verbatim>\<open>window.location.href\<close> set to \<^verbatim>\<open>/auth\<close>, and it rejects with that same
  error. The last conjunct is the rejection handler of the response interceptor on its own.
\<close>

theorem unauthorized_clears_session:
  assumes "api_request net m u b hs w = (r, w')"
    and "net (last (requests w')) = Inl error"
    and "err_response error = Some response"
    and "status response = 401"
  shows "r = Inl (AxiosError error) \<and> localStorage w' ''token'' = None \<and>
         localStorage w' ''user'' = None \<and> location_href w' = ''/auth'' \<and>
         response_interceptor_rejected error w =
           (Inl (AxiosError error),
            w\<lparr>localStorage := (localStorage w)(''token'' := None, ''user'' := None),
              location_href := ''/auth''\<rparr>)"
proof -
  obtain req where
    run: "api_request net m u b hs w =
           (case net req of
              Inr response \<Rightarrow> (Inr response, w\<lparr>requests := requests w @ [req]\<rparr>)
            | Inl error \<Rightarrow>
                response_interceptor_rejected error (w\<lparr>requests := requests w @ [req]\<rparr>))"
    using api_request_sent by blast
  have sent: "last (requests w') = req"
    using assms(1) run
    by (auto simp: response_interceptor_rejected_def removeItem_def split: sum.splits if_splits)
  with assms(2) have "net req = Inl error" by simp
  with run assms(1)
  have "response_interceptor_rejected error (w\<lparr>requests := requests w @ [req]\<rparr>) = (r, w')"
    by simp
  with assms(3,4) show ?thesis
    by (auto simp: response_interceptor_rejected_def removeItem_def)
qed

theorem unauthorized_clears_session_witness:
  "localStorage demo_world ''token'' = Some ''t0'' \<and>
   localStorage demo_world ''user'' = Some ''u0'' \<and>
   err_response unauthorized = Some \<lparr>status = 401, data = JNull\<rparr> \<and>
   fst (api_request (\<lambda>req. Inl unauthorized) GET ''/users'' NoBody Map.empty demo_world) =
     Inl (AxiosError unauthorized) \<and>
   localStorage (snd (api_request (\<lambda>req. Inl unauthorized) GET ''/users'' NoBody Map.empty demo_world))
     ''token'' = None \<and>
   localStorage (snd (api_request (\<lambda>req. Inl unauthorized) GET ''/users'' NoBody Map.empty demo_world))
     ''user'' = None \<and>
   location_href (snd (api_request (\<lambda>req. Inl unauthorized) GET ''/users'' NoBody Map.empty demo_world))
     = ''/auth''"
  using unauthorized_clears_session
    [of "\<lambda>req. Inl unauthorized" GET "''/users''" NoBody Map.empty demo_world
        "fst (api_request (\<lambda>req. Inl unauthorized) GET ''/users'' NoBody Map.empty demo_world)"
        "snd (api_request (\<lambda>req. Inl unauthorized) GET ''/users'' NoBody Map.empty demo_world)"
        unauthorized "\<lparr>status = 401, data = JNull\<rparr>"]
  by (simp add: unauthorized_def demo_world_def)

text \<open>
  C3. The request interceptor never rejects. When \<^verbatim>\<open>getItem("token")\<close> gives a
  non-empty string, it returns the request with the \<^verbatim>\<open>Authorization\<close> header set to
  \<^verbatim>\<open>Bearer\<close>, a space and the token, and nothing else changed; when there is no entry
  (or the entry is the empty string, which \<^verbatim>\<open>if (token)\<close> takes for absent) it returns
  the request as it is. Every call through the shared client hands the transport exactly what
  the interceptor returned.
\<close>

theorem request_interceptor_bearer:
  "(localStorage w ''token'' = Some t \<and> t \<noteq> [] \<longrightarrow>
      request_interceptor config w =
        Inr (config\<lparr>headers := (headers config)(''Authorization'' \<mapsto> ''Bearer '' @ t)\<rparr>)) \<and>
   (localStorage w ''token'' = None \<or> localStorage w ''token'' = Some [] \<longrightarrow>
      request_interceptor config w = Inr config) \<and>
   (\<forall>e. request_interceptor config w \<noteq> Inl e) \<and>
   (\<exists>req. request_interceptor
             \<lparr>req_method = m, baseURL = Some (API_URL w), url = u,
              headers = api_defaults ++ hs, body = b\<rparr> w = Inr req \<and>
          requests (snd (api_request net m u b hs w)) = requests w @ [req])"
proof -
  obtain req where
    req: "request_interceptor
             \<lparr>req_method = m, baseURL = Some (API_URL w), url = u,
              headers = api_defaults ++ hs, body = b\<rparr> w = Inr req"
    and run: "api_request net m u b hs w =
           (case net req of
              Inr response \<Rightarrow> (Inr response, w\<lparr>requests := requests w @ [req]\<rparr>)
            | Inl error \<Rightarrow>
                response_interceptor_rejected error (w\<lparr>requests := requests w @ [req]\<rparr>))"
    using api_request_sent by blast
  have "requests (snd (api_request net m u b hs w)) = requests w @ [req]"
    unfolding run
    by (cases "net req") (simp_all add: response_interceptor_rejected_def removeItem_def)
  with req show ?thesis
    by (auto simp: request_interceptor_Inr)
qed

theorem request_interceptor_bearer_witness:
  "localStorage demo_world ''token'' = Some ''t0'' \<and>
   request_interceptor users_config demo_world =
     Inr (users_config\<lparr>headers := (headers users_config)(''Authorization'' \<mapsto> ''Bearer t0'')\<rparr>) \<and>
   localStorage fresh_world ''token'' = None \<and>
   request_interceptor users_config fresh_world = Inr users_config"
  using request_interceptor_bearer [of demo_world "''t0''" users_config]
        request_interceptor_bearer [of fresh_world "''t0''" users_config]
  by (simp add: demo_world_def fresh_world_def)

subsection \<open>Login and registration\<close>

lemma request_interceptor_url:
  "request_interceptor config w = Inr req \<Longrightarrow> url req = url config"
  by (auto simp: request_interceptor_Inr split: if_splits)

lemma api_request_resolves:
  assumes "\<forall>req. url req = u \<longrightarrow> net req = Inr response"
  shows "\<exists>req. api_request net m u b hs w = (Inr response, w\<lparr>requests := requests w @ [req]\<rparr>)"
proof -
  obtain req where
    req: "request_interceptor
             \<lparr>req_method = m, baseURL = Some (API_URL w), url = u,
              headers = api_defaults ++ hs, body = b\<rparr> w = Inr req"
    and run: "api_request net m u b hs w =
           (case net req of
              Inr response \<Rightarrow> (Inr response, w\<lparr>requests := requests w @ [req]\<rparr>)
            | Inl error \<Rightarrow>
                response_interceptor_rejected error (w\<lparr>requests := requests w @ [req]\<rparr>))"
    using api_request_sent by blast
  from req have "url req = u"
    by (simp add: request_interceptor_url)
  with assms have "net req = Inr response" by simp
  with run show ?thesis by auto
qed

lemma api_request_rejects:
  assumes "\<forall>req. url req = u \<longrightarrow> net req = Inl error"
  shows "\<exists>req. api_request net m u b hs w =
           response_interceptor_rejected error (w\<lparr>requests := requests w @ [req]\<rparr>)"
proof -
  obtain req where
    req: "request_interceptor
             \<lparr>req_method = m, baseURL = Some (API_URL w), url = u,
              headers = api_defaults ++ hs, body = b\<rparr> w = Inr req"
    and run: "api_request net m u b hs w =
           (case net req of
              Inr response \<Rightarrow> (Inr response, w\<lparr>requests := requests w @ [req]\<rparr>)
            | Inl error \<Rightarrow>
                response_interceptor_rejected error (w\<lparr>requests := requests w @ [req]\<rparr>))"
    using api_request_sent by blast
  from req have "url req = u"
    by (simp add: request_interceptor_url)
  with assms have "net req = Inl error" by simp
  with run show ?thesis by auto
qed

lemma login_stores:
  assumes "\<forall>req. url req = ''/auth/login'' \<longrightarrow> net req = Inr response"
    and "get_prop (data response) ''data'' = Inr d"
    and "get_prop d ''token'' = Inr token"
    and "get_prop d ''userData'' = Inr userData"
  shows "fst (authService_login net email password w) = Inr userData \<and>
         localStorage (snd (authService_login net email password w)) =
           (localStorage w)(''token'' \<mapsto> js_to_string token,
                            ''user'' \<mapsto> DOMString (JSON_stringify userData))"
proof -
  obtain req where
    "api_post net ''/auth/login''
       (JsonBody (JObj [(''email'', JStr email), (''password'', JStr password)])) w =
     (Inr response, w\<lparr>requests := requests w @ [req]\<rparr>)"
    unfolding api_post_def using api_request_resolves [OF assms(1)] by blast
  then show ?thesis
    using assms(2-4) by (simp add: authService_login_def setItem_def)
qed

lemma register_stores:
  assumes "\<forall>req. url req = ''/auth/register'' \<longrightarrow> net req = Inr response"
    and "get_prop (data response) ''token'' = Inr token"
    and "get_prop (data response) ''user'' = Inr usr"
  shows "fst (authService_register net userData w) = Inr usr \<and>
         localStorage (snd (authService_register net userData w)) =
           (localStorage w)(''token'' \<mapsto> js_to_string token,
                            ''user'' \<mapsto> DOMString (JSON_stringify usr))"
proof -
  obtain req where
    "api_post net ''/auth/register'' (JsonBody (registration_json userData)) w =
     (Inr response, w\<lparr>requests := requests w @ [req]\<rparr>)"
    unfolding api_post_def using api_request_resolves [OF assms(1)] by blast
  then show ?thesis
    using assms(2-3) by (simp add: authService_register_def setItem_def)
qed

text \<open>
  C2. When the POST to \<^verbatim>\<open>/auth/login\<close> resolves, \<^verbatim>\<open>login\<close> takes \<^verbatim>\<open>token\<close> and
  \<^verbatim>\<open>userData\<close> from \<^verbatim>\<open>response.data.data\<close>; when the POST to
  \<^verbatim>\<open>/auth/register\<close> resolves, \<^verbatim>\<open>register\<close> takes \<^verbatim>\<open>token\<close> and \<^verbatim>\<open>user\<close>
  from \<^verbatim>\<open>response.data\<close>. Each stores the token (as a string) under \<^verbatim>\<open>token\<close> and
  \<^verbatim>\<open>JSON.stringify\<close> of the profile under \<^verbatim>\<open>user\<close>, leaves every other entry of
  local storage alone, and resolves with the profile. The witness is the scenario of the
  specification: the login response \<^verbatim>\<open>{data:{data:{token:"t1",userData:{id:1}}}}\<close> stores
  \<^verbatim>\<open>t1\<close> and \<^verbatim>\<open>{"id":1}\<close> and returns \<^verbatim>\<open>{id:1}\<close>.
\<close>

theorem login_register_store_session:
  "((\<forall>req. url req = ''/auth/login'' \<longrightarrow> net req = Inr response) \<and>
    get_prop (data response) ''data'' = Inr d \<and>
    get_prop d ''token'' = Inr token \<and>
    get_prop d ''userData'' = Inr userData \<longrightarrow>
      fst (authService_login net email password w) = Inr userData \<and>
      localStorage (snd (authService_login net email password w)) =
        (localStorage w)(''token'' \<mapsto> js_to_string token,
                         ''user'' \<mapsto> DOMString (JSON_stringify userData))) \<and>
   ((\<forall>req. url req = ''/auth/register'' \<longrightarrow> net' req = Inr response') \<and>
    get_prop (data response') ''token'' = Inr token' \<and>
    get_prop (data response') ''user'' = Inr usr \<longrightarrow>
      fst (authService_register net' registered w) = Inr usr \<and>
      localStorage (snd (authService_register net' registered w)) =
        (localStorage w)(''token'' \<mapsto> js_to_string token',
                         ''user'' \<mapsto> DOMString (JSON_stringify usr)))"
  using login_stores [of net response d token userData email password w]
    register_stores [of net' response' token' usr registered w]
  by blast

theorem login_register_store_session_witness:
  "data login_response =
     JObj [(''data'', JObj [(''token'', JStr ''t1''), (''userData'', JObj [(''id'', JNum 1)])])] \<and>
   fst (authService_login (\<lambda>req. Inr login_response) ''a@b.com'' ''pw'' fresh_world) =
     Inr (JObj [(''id'', JNum 1)]) \<and>
   localStorage (snd (authService_login (\<lambda>req. Inr login_response) ''a@b.com'' ''pw'' fresh_world))
     ''token'' = Some ''t1'' \<and>
   localStorage (snd (authService_login (\<lambda>req. Inr login_response) ''a@b.com'' ''pw'' fresh_world))
     ''user'' = Some ''{\"id\":1}'' \<and>
   data register_response = JObj [(''token'', JStr ''t2''), (''user'', JObj [(''id'', JNum 2)])] \<and>
   fst (authService_register (\<lambda>req. Inr register_response) ann fresh_world) =
     Inr (JObj [(''id'', JNum 2)]) \<and>
   localStorage (snd (authService_register (\<lambda>req. Inr register_response) ann fresh_world))
     ''token'' = Some ''t2'' \<and>
   localStorage (snd (authService_register (\<lambda>req. Inr register_response) ann fresh_world))
     ''user'' = Some ''{\"id\":2}''"
  using login_register_store_session
    [of "\<lambda>req. Inr login_response" login_response
        "JObj [(''token'', JStr ''t1''), (''userData'', JObj [(''id'', JNum 1)])]"
        "JStr ''t1''" "JObj [(''id'', JNum 1)]" "''a@b.com''" "''pw''" fresh_world
        "\<lambda>req. Inr register_response" register_response "JStr ''t2''"
        "JObj [(''id'', JNum 2)]" ann]
  by (simp add: login_response_def register_response_def fresh_world_def
      json_quote_def json_escape_char_def dec_int_def dec_nat.simps DOMString_def)

subsection \<open>Uploads\<close>

lemma api_request_log:
  "requests (snd (api_request net m u b hs w)) =
     requests w @
       [\<lparr>req_method = m, baseURL = Some (API_URL w), url = u,
         headers = (if str_truthy (localStorage w ''token'')
                    then (api_defaults ++ hs)
                           (''Authorization'' \<mapsto> ''Bearer '' @ the (localStorage w ''token''))
                    else api_defaults ++ hs),
         body = b\<rparr>]"
  by (simp add: api_request_def request_interceptor_Inr Let_def response_interceptor_def
      response_interceptor_rejected_def removeItem_def split: sum.splits)

lemma axios_post_log:
  "requests (snd (axios_post net u b hs w)) =
     requests w @ [\<lparr>req_method = POST, baseURL = None, url = u, headers = hs, body = b\<rparr>]"
  by (simp add: axios_post_def Let_def split: sum.splits)

lemma return_data_snd: "snd (return_data p) = snd p"
  by (simp add: return_data_def split: prod.splits sum.splits)

lemma createRequest_FormData_log:
  "requests (snd (requestService_createRequest net (FormData fd) w)) =
     requests w @
       [\<lparr>req_method = POST, baseURL = None, url = API_URL w @ ''/customization-requests'',
         headers = (if str_truthy (localStorage w ''token'')
                    then [''Authorization'' \<mapsto> ''Bearer '' @ the (localStorage w ''token'')]
                    else Map.empty),
         body = FormDataBody fd\<rparr>]"
proof -
  have "snd (requestService_createRequest net (FormData fd) w) =
        snd (axios_post net (API_URL w @ ''/customization-requests'') (FormDataBody fd)
               (if str_truthy (localStorage w ''token'')
                then [''Authorization'' \<mapsto> ''Bearer '' @ the (localStorage w ''token'')]
                else Map.empty) w)"
    by (simp add: getItem_def Let_def split: prod.splits sum.splits)
  then show ?thesis
    by (simp only: axios_post_log)
qed

text \<open>
  C4. The two uploads. \<^verbatim>\<open>createRequest\<close> with a \<^verbatim>\<open>FormData\<close> hands the transport one
  request carrying the form, with no \<^verbatim>\<open>Content-Type\<close> header at all;
  \<^verbatim>\<open>uploadImage\<close> hands it one request carrying the form with \<^verbatim>\<open>Content-Type\<close> equal
  to \<^verbatim>\<open>multipart/form-data\<close>, in place of the client's \<^verbatim>\<open>application/json\<close>. Neither
  value names a boundary: that is left to the transport. In both, the \<^verbatim>\<open>Authorization\<close>
  header is \<^verbatim>\<open>Bearer\<close> and the token whenever storage holds a non-empty token.
\<close>

theorem upload_requests_headers:
  "(\<exists>req. requests (snd (requestService_createRequest net (FormData fd) w)) = requests w @ [req] \<and>
          body req = FormDataBody fd \<and>
          headers req ''Content-Type'' = None \<and>
          (\<forall>t. localStorage w ''token'' = Some t \<and> t \<noteq> [] \<longrightarrow>
               headers req ''Authorization'' = Some (''Bearer '' @ t))) \<and>
   (\<exists>req. requests (snd (requestImageService_uploadImage net requestId imageFile w)) =
            requests w @ [req] \<and>
          body req = FormDataBody [(''request_id'', FormText requestId), (''image'', FormFile imageFile)] \<and>
          headers req ''Content-Type'' = Some ''multipart/form-data'' \<and>
          (\<forall>t. localStorage w ''token'' = Some t \<and> t \<noteq> [] \<longrightarrow>
               headers req ''Authorization'' = Some (''Bearer '' @ t)))"
proof (intro conjI)
  show "\<exists>req. requests (snd (requestService_createRequest net (FormData fd) w)) = requests w @ [req] \<and>
          body req = FormDataBody fd \<and>
          headers req ''Content-Type'' = None \<and>
          (\<forall>t. localStorage w ''token'' = Some t \<and> t \<noteq> [] \<longrightarrow>
               headers req ''Authorization'' = Some (''Bearer '' @ t))"
    unfolding createRequest_FormData_log by simp
next
  show "\<exists>req. requests (snd (requestImageService_uploadImage net requestId imageFile w)) =
            requests w @ [req] \<and>
          body req = FormDataBody [(''request_id'', FormText requestId), (''image'', FormFile imageFile)] \<and>
          headers req ''Content-Type'' = Some ''multipart/form-data'' \<and>
          (\<forall>t. localStorage w ''token'' = Some t \<and> t \<noteq> [] \<longrightarrow>
               headers req ''Authorization'' = Some (''Bearer '' @ t))"
    unfolding requestImageService_uploadImage_def Let_def return_data_snd api_request_log
    by (simp add: api_defaults_def)
qed

theorem upload_requests_headers_witness:
  "localStorage demo_world ''token'' = Some ''t0'' \<and>
   map (\<lambda>req. (headers req ''Content-Type'', headers req ''Authorization''))
     (requests (snd (requestService_createRequest (\<lambda>req. Inl server_error)
                       (FormData [(''image'', FormFile ''a.png'')]) demo_world))) =
     [(None, Some ''Bearer t0'')] \<and>
   map (\<lambda>req. (headers req ''Content-Type'', headers req ''Authorization''))
     (requests (snd (requestImageService_uploadImage (\<lambda>req. Inl server_error)
                       ''r7'' ''a.png'' demo_world))) =
     [(Some ''multipart/form-data'', Some ''Bearer t0'')]"
  using upload_requests_headers
    [of "\<lambda>req. Inl server_error" "[(''image'', FormFile ''a.png'')]" demo_world "''r7''" "''a.png''"]
  by (auto simp: demo_world_def)

subsection \<open>The auth page and the failure paths of the auth service\<close>

lemma show_toast_fields:
  "loading (show_toast t w) = loading w"
  "navigations (show_toast t w) = navigations w"
  "location_href (show_toast t w) = location_href w"
  "localStorage (show_toast t w) = localStorage w"
  by (simp_all add: show_toast_def)

lemma api_request_loading: "loading (snd (api_request net m u b hs w)) = loading w"
  by (simp add: api_request_def request_interceptor_Inr Let_def response_interceptor_def
      response_interceptor_rejected_def removeItem_def split: sum.splits)

lemma login_loading: "loading (snd (authService_login net email password w)) = loading w"
proof -
  have "loading (snd (api_post net u b w)) = loading w" for u b
    by (simp add: api_post_def api_request_loading)
  then show ?thesis
    by (auto simp: authService_login_def setItem_def split: prod.splits sum.splits)
      (metis snd_conv)+
qed

lemma handleLogin_loading: "loading (handleLogin net email password w) = True"
proof -
  have "loading (snd (authService_login net email password (w\<lparr>loading := True\<rparr>))) = True"
    by (simp add: login_loading)
  then show ?thesis
    by (auto simp: handleLogin_def Let_def show_toast_def navigate_def split: prod.splits sum.splits)
qed

lemma handleRegister_fields:
  "loading (handleRegister fetch name email password role w) = False"
  "navigations (handleRegister fetch name email password role w) = navigations w"
  "location_href (handleRegister fetch name email password role w) = location_href w"
  "localStorage (handleRegister fetch name email password role w) = localStorage w"
  by (simp_all add: handleRegister_def Let_def show_toast_fields split: sum.splits)

text \<open>
  C6. Whatever the transport answers and whatever the flag was before, \<^verbatim>\<open>handleLogin\<close>
  ends with the loading flag true: it sets the flag first and no path resets it.
  \<^verbatim>\<open>handleRegister\<close> ends with the flag false whatever \<^verbatim>\<open>fetch\<close> answers (the
  \<^verbatim>\<open>finally\<close> block), and it neither calls \<^verbatim>\<open>navigate\<close> nor assigns
  \<^verbatim>\<open>window.location.href\<close>, on success as on failure.
\<close>

theorem loading_flag:
  "loading (handleLogin net email password w) = True \<and>
   loading (handleRegister fetch name email' password' role w) = False \<and>
   navigations (handleRegister fetch name email' password' role w) = navigations w \<and>
   location_href (handleRegister fetch name email' password' role w) = location_href w"
  by (simp add: handleLogin_loading handleRegister_fields)


theorem loading_flag_witness:
  "loading fresh_world = False \<and>
   loading (handleLogin (\<lambda>req. Inr login_response) ''a@b.com'' ''pw'' fresh_world) = True \<and>
   loading (handleLogin (\<lambda>req. Inl server_error) ''a@b.com'' ''pw'' fresh_world) = True \<and>
   loading (handleRegister accepting_fetch ''Ann'' ''a@b.com'' ''pw'' Customer fresh_world) = False \<and>
   navigations (handleRegister accepting_fetch ''Ann'' ''a@b.com'' ''pw'' Customer fresh_world) = []"
  using loading_flag [of "\<lambda>req. Inr login_response" "''a@b.com''" "''pw''" fresh_world
          accepting_fetch "''Ann''" "''a@b.com''" "''pw''" Customer]
        loading_flag [of "\<lambda>req. Inl server_error" "''a@b.com''" "''pw''" fresh_world
          accepting_fetch "''Ann''" "''a@b.com''" "''pw''" Customer]
  by (simp add: fresh_world_def)

lemma response_interceptor_rejected_storage:
  "fst (response_interceptor_rejected error w) = Inl (AxiosError error)"
  "localStorage (snd (response_interceptor_rejected error w)) =
     (if err_response error \<noteq> None \<and> status (the (err_response error)) = 401
      then (localStorage w)(''token'' := None, ''user'' := None)
      else localStorage w)"
  by (simp_all add: response_interceptor_rejected_def removeItem_def)

text \<open>
  C9. When the transport rejects the POST to \<^verbatim>\<open>/auth/login\<close>, \<^verbatim>\<open>login\<close> rejects with
  that error. Local storage afterwards is what it was, except for the two entries the
  response interceptor removes when the status is 401; in every case no entry is written
  (the storage afterwards is contained in the storage before).
\<close>

theorem login_rejected_writes_nothing:
  assumes "\<forall>req. url req = ''/auth/login'' \<longrightarrow> net req = Inl error"
  shows "fst (authService_login net email password w) = Inl (AxiosError error) \<and>
         localStorage (snd (authService_login net email password w)) =
           (if err_response error \<noteq> None \<and> status (the (err_response error)) = 401
            then (localStorage w)(''token'' := None, ''user'' := None)
            else localStorage w) \<and>
         localStorage (snd (authService_login net email password w)) \<subseteq>\<^sub>m localStorage w"
proof -
  let ?b = "JsonBody (JObj [(''email'', JStr email), (''password'', JStr password)])"
  obtain req where
    post: "api_post net ''/auth/login'' ?b w =
       response_interceptor_rejected error (w\<lparr>requests := requests w @ [req]\<rparr>)"
    unfolding api_post_def using api_request_rejects [OF assms] by blast
  have rej: "response_interceptor_rejected error w1 =
      (Inl (AxiosError error), snd (response_interceptor_rejected error w1))" for w1
    by (simp add: response_interceptor_rejected_def)
  have res: "authService_login net email password w =
      (Inl (AxiosError error), snd (api_post net ''/auth/login'' ?b w))"
    unfolding authService_login_def post by (subst rej) simp
  have st: "localStorage (snd (authService_login net email password w)) =
           (if err_response error \<noteq> None \<and> status (the (err_response error)) = 401
            then (localStorage w)(''token'' := None, ''user'' := None)
            else localStorage w)"
    unfolding res post by (simp add: response_interceptor_rejected_storage)
  have "localStorage (snd (authService_login net email password w)) \<subseteq>\<^sub>m localStorage w"
    unfolding st by (simp add: map_le_def)
  with res st show ?thesis by simp
qed

theorem login_rejected_writes_nothing_witness:
  "fst (authService_login (\<lambda>req. Inl server_error) ''a@b.com'' ''pw'' demo_world) =
     Inl (AxiosError server_error) \<and>
   localStorage (snd (authService_login (\<lambda>req. Inl server_error) ''a@b.com'' ''pw'' demo_world)) =
     localStorage demo_world \<and>
   fst (authService_login (\<lambda>req. Inl unauthorized) ''a@b.com'' ''pw'' fresh_world) =
     Inl (AxiosError unauthorized) \<and>
   localStorage (snd (authService_login (\<lambda>req. Inl unauthorized) ''a@b.com'' ''pw'' fresh_world)) =
     Map.empty"
  using login_rejected_writes_nothing [of "\<lambda>req. Inl server_error" server_error "''a@b.com''" "''pw''" demo_world]
        login_rejected_writes_nothing [of "\<lambda>req. Inl unauthorized" unauthorized "''a@b.com''" "''pw''" fresh_world]
  by (simp add: server_error_def unauthorized_def fresh_world_def)

text \<open>
  C10. With no token stored (no entry, or the empty string), \<^verbatim>\<open>getCurrentUser\<close> resolves
  with \<^verbatim>\<open>null\<close> and leaves the whole state as it was, the list of requests included,
  whatever the transport is. With a token stored, when the transport rejects the GET to
  \<^verbatim>\<open>/auth/me\<close> with any error, it resolves with \<^verbatim>\<open>null\<close> and the \<^verbatim>\<open>token\<close> and
  \<^verbatim>\<open>user\<close> entries are gone.
\<close>

theorem getCurrentUser_null:
  "(\<not> str_truthy (localStorage w ''token'') \<longrightarrow>
      authService_getCurrentUser net w = (Inr JNull, w)) \<and>
   (str_truthy (localStorage w ''token'') \<and>
    (\<forall>req. url req = ''/auth/me'' \<longrightarrow> net req = Inl error) \<longrightarrow>
      fst (authService_getCurrentUser net w) = Inr JNull \<and>
      localStorage (snd (authService_getCurrentUser net w)) ''token'' = None \<and>
      localStorage (snd (authService_getCurrentUser net w)) ''user'' = None)"
proof (intro conjI impI)
  assume "\<not> str_truthy (localStorage w ''token'')"
  then show "authService_getCurrentUser net w = (Inr JNull, w)"
    by (simp add: authService_getCurrentUser_def getItem_def)
next
  assume a: "str_truthy (localStorage w ''token'') \<and>
    (\<forall>req. url req = ''/auth/me'' \<longrightarrow> net req = Inl error)"
  then obtain req where
    get: "api_get net ''/auth/me'' w =
       response_interceptor_rejected error (w\<lparr>requests := requests w @ [req]\<rparr>)"
    unfolding api_get_def using api_request_rejects [of "''/auth/me''" net error] by blast
  have caught: "authService_getCurrentUser net w =
      (Inr JNull, removeItem ''user'' (removeItem ''token'' (snd (api_get net ''/auth/me'' w))))"
    using a unfolding get
    by (simp add: authService_getCurrentUser_def getItem_def get response_interceptor_rejected_def)
  show "fst (authService_getCurrentUser net w) = Inr JNull"
    and "localStorage (snd (authService_getCurrentUser net w)) ''token'' = None"
    and "localStorage (snd (authService_getCurrentUser net w)) ''user'' = None"
    unfolding caught by (simp_all add: removeItem_def)
qed

theorem getCurrentUser_null_witness:
  "\<not> str_truthy (localStorage fresh_world ''token'') \<and>
   fst (authService_getCurrentUser (\<lambda>req. Inl server_error) fresh_world) = Inr JNull \<and>
   requests (snd (authService_getCurrentUser (\<lambda>req. Inl server_error) fresh_world)) = [] \<and>
   str_truthy (localStorage demo_world ''token'') \<and>
   fst (authService_getCurrentUser (\<lambda>req. Inl server_error) demo_world) = Inr JNull \<and>
   localStorage (snd (authService_getCurrentUser (\<lambda>req. Inl server_error) demo_world)) ''token'' = None \<and>
   localStorage (snd (authService_getCurrentUser (\<lambda>req. Inl server_error) demo_world)) ''user'' = None"
  using getCurrentUser_null [of fresh_world "\<lambda>req. Inl server_error" server_error]
        getCurrentUser_null [of demo_world "\<lambda>req. Inl server_error" server_error]
  by (simp add: fresh_world_def demo_world_def)

subsection \<open>Query strings of the list operations\<close>

lemma append_filters_eq:
  "append_filters filters queryParams =
     queryParams @ map (\<lambda>(k, v). (k, js_to_string v)) (filter (\<lambda>(k, v). js_truthy v) filters)"
  by (induction filters arbitrary: queryParams) auto

lemma urlencode_byte_kept: "urlencoded_keeps c \<Longrightarrow> urlencode_byte c = [c]"
  by (auto simp: urlencode_byte_def urlencoded_keeps_def)

lemma urlencode_kept: "list_all urlencoded_keeps s \<Longrightarrow> urlencode s = s"
  by (induction s) (simp_all add: urlencode_def urlencode_byte_kept)

lemma filters_query:
  "URLSearchParams_toString (append_filters filters []) =
     join ''&'' (map (\<lambda>(k, v). urlencode k @ ''='' @ urlencode (js_to_string v))
                   (filter (\<lambda>(k, v). js_truthy v) filters))"
  by (simp add: URLSearchParams_toString_def append_filters_eq split_def comp_def)

text \<open>
  C7, as stated, fails: a truthy value does not reach the query string as it is. The value
  \<^verbatim>\<open>in progress\<close> is truthy, and \<^verbatim>\<open>getRequests({status: "in progress"})\<close> asks for
  \<^verbatim>\<open>/customization-requests?status=in+progress\<close>, in which \<^verbatim>\<open>in progress\<close> does not
  occur.
\<close>

theorem filter_value_not_verbatim:
  "js_truthy (JStr ''in progress'') \<and>
   map url (requests (snd (requestService_getRequests (\<lambda>req. Inr ok_response)
                             [(''status'', JStr ''in progress'')] fresh_world))) =
     [''/customization-requests?status=in+progress''] \<and>
   \<not> sublist ''in progress''
       (url (last (requests (snd (requestService_getRequests (\<lambda>req. Inr ok_response)
                                    [(''status'', JStr ''in progress'')] fresh_world)))))"
  by (simp add: requestService_getRequests_def Let_def return_data_snd api_get_def
      api_request_log URLSearchParams_toString_def urlencode_def urlencode_byte_def
      urlencoded_keeps_def fresh_world_def sublist_Cons_right)

text \<open>
  C7, amended. For every filter object, \<^verbatim>\<open>getRequests\<close> and \<^verbatim>\<open>getProposals\<close> ask
  for their path, a question mark and the query string made of the entries with a truthy
  value only, in their order, each as name, \<^verbatim>\<open>=\<close> and the string of the value, both
  form-urlencoded, joined by \<^verbatim>\<open>&\<close>. Entries with a falsy value contribute nothing. A
  name or value made only of letters, digits and \<^verbatim>\<open>* - . _\<close> is encoded as itself.
\<close>

theorem filters_query_string:
  "url (last (requests (snd (requestService_getRequests net filters w)))) =
     ''/customization-requests?'' @
       join ''&'' (map (\<lambda>(k, v). urlencode k @ ''='' @ urlencode (js_to_string v))
                     (filter (\<lambda>(k, v). js_truthy v) filters)) \<and>
   url (last (requests (snd (proposalService_getProposals net filters w)))) =
     ''/designer-proposals?'' @
       join ''&'' (map (\<lambda>(k, v). urlencode k @ ''='' @ urlencode (js_to_string v))
                     (filter (\<lambda>(k, v). js_truthy v) filters)) \<and>
   (list_all urlencoded_keeps s \<longrightarrow> urlencode s = s)"
  by (simp add: requestService_getRequests_def proposalService_getProposals_def Let_def
      return_data_snd api_get_def api_request_log filters_query urlencode_kept)

theorem filters_query_string_witness:
  "list_all urlencoded_keeps ''open'' \<and> urlencode ''open'' = ''open'' \<and>
   url (last (requests (snd (requestService_getRequests (\<lambda>req. Inr ok_response)
                               demo_filters fresh_world)))) =
     ''/customization-requests?status=open&page=2'' \<and>
   url (last (requests (snd (proposalService_getProposals (\<lambda>req. Inr ok_response)
                               demo_filters fresh_world)))) =
     ''/designer-proposals?status=open&page=2''"
  using filters_query_string [of "\<lambda>req. Inr ok_response" demo_filters fresh_world "''open''"]
  by (simp add: demo_filters_def urlencode_def urlencode_byte_def urlencoded_keeps_def
      dec_int_def dec_nat.simps)

subsection \<open>Registration through the page\<close>

text \<open>
  C8, as stated, fails. \<^verbatim>\<open>handleRegister\<close> posts the form with \<^verbatim>\<open>fetch\<close> and does not
  call \<^verbatim>\<open>authService.register\<close>. On an empty storage, with a backend that accepts the
  registration and answers with a token and a user, the page shows the notification of
  success and local storage still has neither a \<^verbatim>\<open>token\<close> nor a \<^verbatim>\<open>user\<close> entry.
\<close>

theorem page_registration_creates_no_session:
  "accepting_fetch
     \<lparr>req_method = POST, baseURL = None, url = ''http://localhost:8000/api/auth/register'',
      headers = [''Content-Type'' \<mapsto> ''application/json''],
      body = TextBody ''{\"name\":\"Ann\",\"email\":\"a@b.com\",\"password\":\"pw\",\"role\":\"customer\"}''\<rparr> =
     Inr \<lparr>ok = True,
          json_result = Inr (JObj [(''token'', JStr ''t2''), (''user'', JObj [(''id'', JNum 2)])])\<rparr> \<and>
   requests (handleRegister accepting_fetch ''Ann'' ''a@b.com'' ''pw'' Customer fresh_world) =
     [\<lparr>req_method = POST, baseURL = None, url = ''http://localhost:8000/api/auth/register'',
       headers = [''Content-Type'' \<mapsto> ''application/json''],
       body = TextBody ''{\"name\":\"Ann\",\"email\":\"a@b.com\",\"password\":\"pw\",\"role\":\"customer\"}''\<rparr>] \<and>
   map title (toasts (handleRegister accepting_fetch ''Ann'' ''a@b.com'' ''pw'' Customer fresh_world)) =
     [''Registration successful''] \<and>
   localStorage (handleRegister accepting_fetch ''Ann'' ''a@b.com'' ''pw'' Customer fresh_world)
     ''token'' = None \<and>
   localStorage (handleRegister accepting_fetch ''Ann'' ''a@b.com'' ''pw'' Customer fresh_world)
     ''user'' = None"
  by (simp add: handleRegister_def Let_def accepting_fetch_def fresh_world_def show_toast_def
      API_URL_def json_quote_def json_escape_char_def)

text \<open>
  C8, amended. A registration submitted through the auth page leaves local storage as it
  was, whatever \<^verbatim>\<open>fetch\<close> answers. The session of a registration is created by
  \<^verbatim>\<open>authService.register\<close>: when its POST to \<^verbatim>\<open>/auth/register\<close> resolves, the
  \<^verbatim>\<open>token\<close> and \<^verbatim>\<open>user\<close> entries hold the token and the serialised user of the
  response.
\<close>

theorem page_registration_keeps_storage:
  "localStorage (handleRegister fetch name email password role w) = localStorage w \<and>
   ((\<forall>req. url req = ''/auth/register'' \<longrightarrow> net req = Inr response) \<and>
    get_prop (data response) ''token'' = Inr token \<and>
    get_prop (data response) ''user'' = Inr usr \<longrightarrow>
      localStorage (snd (authService_register net registered w)) ''token'' =
        Some (js_to_string token) \<and>
      localStorage (snd (authService_register net registered w)) ''user'' =
        Some (DOMString (JSON_stringify usr)))"
  using register_stores [of net response token usr registered w]
  by (simp add: handleRegister_fields)

theorem page_registration_keeps_storage_witness:
  "localStorage (handleRegister accepting_fetch ''Ann'' ''a@b.com'' ''pw'' Customer demo_world) =
     localStorage demo_world \<and>
   localStorage (snd (authService_register (\<lambda>req. Inr register_response) ann fresh_world))
     ''token'' = Some ''t2'' \<and>
   localStorage (snd (authService_register (\<lambda>req. Inr register_response) ann fresh_world))
     ''user'' = Some ''{\"id\":2}''"
  using page_registration_keeps_storage
    [of accepting_fetch "''Ann''" "''a@b.com''" "''pw''" Customer demo_world]
    page_registration_keeps_storage
    [of accepting_fetch "''Ann''" "''a@b.com''" "''pw''" Customer fresh_world
        "\<lambda>req. Inr register_response" register_response "JStr ''t2''"
        "JObj [(''id'', JNum 2)]" ann]
  by (simp add: register_response_def DOMString_def json_quote_def json_escape_char_def
      dec_int_def dec_nat.simps)

subsection \<open>Failures of the service operations\<close>

lemma api_request_outcome:
  assumes "api_request net m u b hs w = (r, w')"
  obtains req where "requests w' = requests w @ [req]" and "toasts w' = toasts w"
    and "(\<exists>e. net req = Inl e \<and> r = Inl (AxiosError e)) \<or>
         (\<exists>resp. net req = Inr resp \<and> r = Inr resp \<and> w' = w\<lparr>requests := requests w @ [req]\<rparr>)"
proof -
  obtain req where
    run: "api_request net m u b hs w =
           (case net req of
              Inr response \<Rightarrow> (Inr response, w\<lparr>requests := requests w @ [req]\<rparr>)
            | Inl error \<Rightarrow>
                response_interceptor_rejected error (w\<lparr>requests := requests w @ [req]\<rparr>))"
    using api_request_sent by blast
  show ?thesis
  proof (cases "net req")
    case (Inl e)
    with run assms
    have "requests w' = requests w @ [req]" "toasts w' = toasts w" "r = Inl (AxiosError e)"
      by (auto simp: response_interceptor_rejected_def removeItem_def split: if_splits)
    with Inl that show ?thesis by blast
  next
    case (Inr resp)
    with run assms
    have "requests w' = requests w @ [req]" "toasts w' = toasts w" "r = Inr resp"
      "w' = w\<lparr>requests := requests w @ [req]\<rparr>"
      by auto
    with Inr that show ?thesis by blast
  qed
qed

lemma return_data_outcome:
  assumes "return_data (api_request net m u b hs w) = (r, w')"
  shows "toasts w' = toasts w \<and>
         (\<exists>req. requests w' = requests w @ [req] \<and>
                (\<forall>e. net req = Inl e \<longrightarrow> r = Inl (AxiosError e)))"
proof -
  obtain r0 where run: "api_request net m u b hs w = (r0, w')"
    and r: "r = (case r0 of Inl e \<Rightarrow> Inl e | Inr response \<Rightarrow> Inr (data response))"
    using assms by (auto simp: return_data_def split: prod.splits sum.splits)
  from run obtain req where "requests w' = requests w @ [req]" and "toasts w' = toasts w"
    and "(\<exists>e. net req = Inl e \<and> r0 = Inl (AxiosError e)) \<or> (\<exists>resp. net req = Inr resp \<and> r0 = Inr resp)"
    by (rule api_request_outcome) blast
  with r show ?thesis by auto
qed

lemma axios_post_outcome:
  assumes "axios_post net u b hs w = (r, w')"
  shows "toasts w' = toasts w \<and>
         (\<exists>req. requests w' = requests w @ [req] \<and>
                (\<forall>e. net req = Inl e \<longrightarrow> r = Inl (AxiosError e)))"
proof -
  let ?req = "\<lparr>req_method = POST, baseURL = None, url = u, headers = hs, body = b\<rparr>"
  from assms have "requests w' = requests w @ [?req]" "toasts w' = toasts w"
    "\<forall>e. net ?req = Inl e \<longrightarrow> r = Inl (AxiosError e)"
    by (auto simp: axios_post_def Let_def split: sum.splits)
  then show ?thesis by blast
qed

lemma login_outcome:
  assumes "authService_login net email password w = (r, w')"
  shows "toasts w' = toasts w \<and>
         (\<exists>req. requests w' = requests w @ [req] \<and>
                (\<forall>e. net req = Inl e \<longrightarrow> r = Inl (AxiosError e)))"
proof -
  obtain r0 w0 where
    post: "api_request net POST ''/auth/login''
       (JsonBody (JObj [(''email'', JStr email), (''password'', JStr password)])) Map.empty w = (r0, w0)"
    by fastforce
  from post obtain req where req: "requests w0 = requests w @ [req]" "toasts w0 = toasts w"
    "(\<exists>e. net req = Inl e \<and> r0 = Inl (AxiosError e)) \<or> (\<exists>resp. net req = Inr resp \<and> r0 = Inr resp)"
    by (rule api_request_outcome) blast
  from assms post have "requests w' = requests w0" "toasts w' = toasts w0"
    "\<forall>e. r0 = Inl e \<longrightarrow> r = Inl e"
    by (auto simp: authService_login_def api_post_def setItem_def split: sum.splits)
  with req show ?thesis by auto
qed

lemma register_outcome:
  assumes "authService_register net userData w = (r, w')"
  shows "toasts w' = toasts w \<and>
         (\<exists>req. requests w' = requests w @ [req] \<and>
                (\<forall>e. net req = Inl e \<longrightarrow> r = Inl (AxiosError e)))"
proof -
  obtain r0 w0 where
    post: "api_request net POST ''/auth/register''
       (JsonBody (registration_json userData)) Map.empty w = (r0, w0)"
    by fastforce
  from post obtain req where req: "requests w0 = requests w @ [req]" "toasts w0 = toasts w"
    "(\<exists>e. net req = Inl e \<and> r0 = Inl (AxiosError e)) \<or> (\<exists>resp. net req = Inr resp \<and> r0 = Inr resp)"
    by (rule api_request_outcome) blast
  from assms post have "requests w' = requests w0" "toasts w' = toasts w0"
    "\<forall>e. r0 = Inl e \<longrightarrow> r = Inl e"
    by (auto simp: authService_register_def api_post_def setItem_def split: sum.splits)
  with req show ?thesis by auto
qed

lemma createRequest_outcome:
  assumes "requestService_createRequest net requestData w = (r, w')"
  shows "toasts w' = toasts w \<and>
         (\<exists>req. requests w' = requests w @ [req] \<and>
                (\<forall>e. net req = Inl e \<longrightarrow> r = Inl (AxiosError e)))"
proof (cases requestData)
  case (FormData fd)
  let ?hs = "if str_truthy (localStorage w ''token'')
              then [''Authorization'' \<mapsto> ''Bearer '' @ the (localStorage w ''token'')]
              else Map.empty"
  obtain r0 w0 where
    post: "axios_post net (API_URL w @ ''/customization-requests'') (FormDataBody fd) ?hs w = (r0, w0)"
    by fastforce
  from axios_post_outcome [OF post] obtain req where
    req: "requests w0 = requests w @ [req]" "toasts w0 = toasts w"
      "\<forall>e. net req = Inl e \<longrightarrow> r0 = Inl (AxiosError e)"
    by blast
  from assms post FormData have "w' = w0" "\<forall>e. r0 = Inl e \<longrightarrow> r = Inl e"
    by (auto simp: getItem_def Let_def split: sum.splits if_splits)
  with req show ?thesis by auto
next
  case (Plain j)
  with assms show ?thesis
    by (simp add: api_post_def return_data_outcome)
qed

lemma getCurrentUser_outcome:
  assumes "authService_getCurrentUser net w = (r, w')"
  shows "toasts w' = toasts w \<and>
         (requests w' = requests w \<or>
          (\<exists>req. requests w' = requests w @ [req] \<and> (\<forall>e. net req = Inl e \<longrightarrow> r = Inr JNull)))"
proof (cases "str_truthy (localStorage w ''token'')")
  case False
  with assms show ?thesis
    by (auto simp: authService_getCurrentUser_def getItem_def)
next
  case True
  obtain r0 w0 where
    get: "api_request net GET ''/auth/me'' NoBody Map.empty w = (r0, w0)"
    by fastforce
  from get obtain req where req: "requests w0 = requests w @ [req]" "toasts w0 = toasts w"
    "(\<exists>e. net req = Inl e \<and> r0 = Inl (AxiosError e)) \<or> (\<exists>resp. net req = Inr resp \<and> r0 = Inr resp)"
    by (rule api_request_outcome) blast
  from assms get True have "requests w' = requests w0" "toasts w' = toasts w0"
    "\<forall>e. r0 = Inl e \<longrightarrow> r = Inr JNull"
    by (auto simp: authService_getCurrentUser_def getItem_def api_get_def removeItem_def
        split: sum.splits)
  with req show ?thesis by auto
qed

lemma facade_outcome:
  assumes "call_facade net call w = (r, w')" and "call \<noteq> GetCurrentUser"
  shows "toasts w' = toasts w \<and>
         (requests w' = requests w \<or>
          (\<exists>req. requests w' = requests w @ [req] \<and>
                 (\<forall>e. net req = Inl e \<longrightarrow> r = Inl (AxiosError e))))"
proof (cases call)
  case (Login email password)
  with assms login_outcome show ?thesis by simp
next
  case (Register userData)
  with assms register_outcome show ?thesis by simp
next
  case Logout
  with assms show ?thesis by (auto simp: authService_logout_def removeItem_def)
next
  case GetCurrentUser
  with assms show ?thesis by simp
next
  case GetUsers
  with assms show ?thesis
    by (simp add: userService_getUsers_def api_get_def return_data_outcome)
next
  case (GetUserById userId)
  with assms show ?thesis
    by (simp add: userService_getUserById_def api_get_def return_data_outcome)
next
  case (UpdateUser userId userData)
  with assms show ?thesis
    by (simp add: userService_updateUser_def api_put_def return_data_outcome)
next
  case (DeleteUser userId)
  with assms show ?thesis
    by (simp add: userService_deleteUser_def api_delete_def return_data_outcome)
next
  case (GetRequests filters)
  with assms show ?thesis
    by (simp add: requestService_getRequests_def Let_def api_get_def return_data_outcome)
next
  case (GetRequestById requestId)
  with assms show ?thesis
    by (simp add: requestService_getRequestById_def api_get_def return_data_outcome)
next
  case (CreateRequest requestData)
  with assms createRequest_outcome show ?thesis by simp
next
  case (UpdateRequest requestId requestData)
  with assms show ?thesis
    by (simp add: requestService_updateRequest_def api_put_def return_data_outcome)
next
  case (DeleteRequest requestId)
  with assms show ?thesis
    by (simp add: requestService_deleteRequest_def api_delete_def return_data_outcome)
next
  case (GetImagesByRequestId requestId)
  with assms show ?thesis
    by (simp add: requestImageService_getImagesByRequestId_def api_get_def return_data_outcome)
next
  case (AddImage request_id image_url)
  with assms show ?thesis
    by (simp add: requestImageService_addImage_def api_post_def return_data_outcome)
next
  case (UploadImage requestId imageFile)
  with assms show ?thesis
    by (simp add: requestImageService_uploadImage_def Let_def return_data_outcome)
next
  case (DeleteImage imageId)
  with assms show ?thesis
    by (simp add: requestImageService_deleteImage_def api_delete_def return_data_outcome)
next
  case (GetProposals filters)
  with assms show ?thesis
    by (simp add: proposalService_getProposals_def Let_def api_get_def return_data_outcome)
next
  case (CreateProposal proposalData)
  with assms show ?thesis
    by (simp add: proposalService_createProposal_def api_post_def return_data_outcome)
next
  case (UpdateProposal proposalId proposalData)
  with assms show ?thesis
    by (simp add: proposalService_updateProposal_def api_put_def return_data_outcome)
next
  case (GetMessages senderId receiverId)
  with assms show ?thesis
    by (simp add: chatService_getMessages_def api_get_def return_data_outcome)
next
  case (SendMessage messageData)
  with assms show ?thesis
    by (simp add: chatService_sendMessage_def api_post_def return_data_outcome)
qed


text \<open>
  C5, as stated, fails: one operation catches the failure of its call.
  \<^verbatim>\<open>getCurrentUser\<close>, with a token stored and a transport that rejects the GET to
  \<^verbatim>\<open>/auth/me\<close> with status 500, resolves with \<^verbatim>\<open>null\<close>; it does not reject with the
  transport's error.
\<close>

theorem getCurrentUser_swallows_rejection:
  "str_truthy (localStorage demo_world ''token'') \<and>
   map url (requests (snd (call_facade (\<lambda>req. Inl server_error) GetCurrentUser demo_world))) =
     [''/auth/me''] \<and>
   fst (call_facade (\<lambda>req. Inl server_error) GetCurrentUser demo_world) = Inr JNull \<and>
   fst (call_facade (\<lambda>req. Inl server_error) GetCurrentUser demo_world) \<noteq>
     Inl (AxiosError server_error)"
  by (simp add: authService_getCurrentUser_def getItem_def api_get_def api_request_def
      request_interceptor_def response_interceptor_rejected_def removeItem_def Let_def
      demo_world_def server_error_def)

text \<open>
  C5, amended. Take any operation of the service objects and run it. It shows no
  notification and hands the transport at most one request (no retry). If the operation is
  not \<^verbatim>\<open>getCurrentUser\<close> and the transport rejects that request, the operation rejects
  with the transport's error (\<^verbatim>\<open>createRequest\<close> catches the error of a
  \<^verbatim>\<open>FormData\<close> upload only to rethrow it); \<^verbatim>\<open>getCurrentUser\<close> resolves with
  \<^verbatim>\<open>null\<close> instead. The notification comes from the page: when \<^verbatim>\<open>login\<close> rejects,
  \<^verbatim>\<open>handleLogin\<close> shows one \<^verbatim>\<open>Login failed\<close> toast carrying the message of the error.
\<close>

theorem facade_rejects_with_transport_error:
  assumes "call_facade net call w = (r, w')"
  shows "toasts w' = toasts w \<and>
         length (requests w') \<le> Suc (length (requests w)) \<and>
         (call \<noteq> GetCurrentUser \<longrightarrow>
            (\<forall>req error. requests w' = requests w @ [req] \<and> net req = Inl error \<longrightarrow>
                r = Inl (AxiosError error))) \<and>
         (call = GetCurrentUser \<longrightarrow>
            (\<forall>req error. requests w' = requests w @ [req] \<and> net req = Inl error \<longrightarrow>
                r = Inr JNull)) \<and>
         (\<forall>e. fst (authService_login net email password (w\<lparr>loading := True\<rparr>)) = Inl e \<longrightarrow>
              toasts (handleLogin net email password w) =
                toasts w @
                  [\<lparr>title = ''Login failed'',
                    description = (if instanceof_Error e then MessageOf e
                                   else Text ''Invalid credentials''),
                    variant = Some ''destructive''\<rparr>])"
proof -
  have facade: "toasts w' = toasts w \<and>
         length (requests w') \<le> Suc (length (requests w)) \<and>
         (call \<noteq> GetCurrentUser \<longrightarrow>
            (\<forall>req error. requests w' = requests w @ [req] \<and> net req = Inl error \<longrightarrow>
                r = Inl (AxiosError error))) \<and>
         (call = GetCurrentUser \<longrightarrow>
            (\<forall>req error. requests w' = requests w @ [req] \<and> net req = Inl error \<longrightarrow>
                r = Inr JNull))"
  proof (cases "call = GetCurrentUser")
    case True
    with assms have "authService_getCurrentUser net w = (r, w')" by simp
    from getCurrentUser_outcome [OF this] True show ?thesis by auto
  next
    case False
    from facade_outcome [OF assms False] False show ?thesis by auto
  qed
  have page: "toasts (handleLogin net email password w) =
                toasts w @
                  [\<lparr>title = ''Login failed'',
                    description = (if instanceof_Error e then MessageOf e
                                   else Text ''Invalid credentials''),
                    variant = Some ''destructive''\<rparr>]"
    if "fst (authService_login net email password (w\<lparr>loading := True\<rparr>)) = Inl e" for e
  proof -
    define w2 where "w2 = snd (authService_login net email password (w\<lparr>loading := True\<rparr>))"
    have login: "authService_login net email password (w\<lparr>loading := True\<rparr>) = (Inl e, w2)"
      using that unfolding w2_def by (simp add: prod_eq_iff)
    from login_outcome [OF login] have "toasts w2 = toasts w" by simp
    with login show ?thesis
      by (simp add: handleLogin_def Let_def show_toast_def)
  qed
  from page
  have "\<forall>e. fst (authService_login net email password (w\<lparr>loading := True\<rparr>)) = Inl e \<longrightarrow>
              toasts (handleLogin net email password w) =
                toasts w @
                  [\<lparr>title = ''Login failed'',
                    description = (if instanceof_Error e then MessageOf e
                                   else Text ''Invalid credentials''),
                    variant = Some ''destructive''\<rparr>]"
    by (intro allI impI)
  with facade show ?thesis by (intro conjI) (elim conjE, assumption)+
qed


theorem facade_rejects_with_transport_error_witness:
  "map url (requests (snd (call_facade (\<lambda>req. Inl server_error) (GetUserById 7) demo_world))) =
     map url (requests demo_world) @ [''/users?userId=7''] \<and>
   fst (call_facade (\<lambda>req. Inl server_error) (GetUserById 7) demo_world) =
     Inl (AxiosError server_error) \<and>
   toasts (snd (call_facade (\<lambda>req. Inl server_error) (GetUserById 7) demo_world)) = [] \<and>
   map title (toasts (handleLogin (\<lambda>req. Inl server_error) ''a@b.com'' ''pw'' demo_world)) =
     [''Login failed'']"
  using facade_rejects_with_transport_error
    [of "\<lambda>req. Inl server_error" "GetUserById 7" demo_world
        "fst (call_facade (\<lambda>req. Inl server_error) (GetUserById 7) demo_world)"
        "snd (call_facade (\<lambda>req. Inl server_error) (GetUserById 7) demo_world)"
        "''a@b.com''" "''pw''"]
  by (simp add: userService_getUserById_def return_data_def api_get_def api_request_def
      request_interceptor_def response_interceptor_rejected_def removeItem_def getItem_def
      Let_def demo_world_def server_error_def dec_int_def dec_nat.simps
      authService_login_def api_post_def handleLogin_def show_toast_def)

end
